theory Spec2Isabelle
  imports Main "HOL-Library.Word"
begin

section \<open>Data model of package gaws\<close>

text \<open>
  The error document returned from many AWS requests (\<^verbatim>\<open>type AWSError struct\<close>), with
  its two JSON fields \<^verbatim>\<open>__type\<close> and \<^verbatim>\<open>message\<close>. The field \<^verbatim>\<open>Type\<close> is written
  \<open>Type\<close> and \<^verbatim>\<open>Message\<close> is written \<open>Message\<close>, as in the source.
\<close>

record AWSError =
  Type :: string
  Message :: string

text \<open>
  Values of Go's \<^verbatim>\<open>error\<close> interface that \<^verbatim>\<open>SendAWSRequest\<close> can hand back, one
  constructor for each place an error value originates:
  \<^item> \<open>TransportError\<close>: the error returned by \<^verbatim>\<open>client.Do\<close>;
  \<^item> \<open>ReadError\<close>: the error returned by \<^verbatim>\<open>ioutil.ReadAll\<close>;
  \<^item> \<open>DecodeError\<close>: the error returned by \<^verbatim>\<open>json.Unmarshal\<close>;
  \<^item> \<open>ServiceError\<close>: an \<^verbatim>\<open>AWSError\<close> value (it implements \<^verbatim>\<open>Error()\<close>).
  The library errors are carried as their message text.
\<close>

datatype error =
    TransportError string
  | ReadError string
  | DecodeError string
  | ServiceError AWSError

text \<open>
  \<^verbatim>\<open>*http.Request\<close>, as far as the dispatcher is concerned: method, URL, header mapping
  (\<^verbatim>\<open>map[string][]string\<close>) and body bytes. A byte sequence is a \<open>string\<close>
  (Isabelle characters are 8-bit values).
\<close>

record request =
  Method :: string
  URL :: string
  Header :: "string \<rightharpoonup> string list"
  Payload :: string

text \<open>
  The body stream of a response is consumed by \<^verbatim>\<open>ioutil.ReadAll\<close>, which returns the
  bytes read together with an optional read error.
\<close>

datatype body_stream = BodyStream string "string option"

fun ReadAll :: "body_stream \<Rightarrow> string \<times> string option" where
  "ReadAll (BodyStream bytes err) = (bytes, err)"

record response =
  StatusCode :: int
  Body :: body_stream

text \<open>
  Everything outside the function is collected in an environment:
  \<^item> \<open>Sign\<close>: \<^verbatim>\<open>awsauth.Sign\<close>, which mutates the request in place; here it returns the
    signed request;
  \<^item> \<open>Do\<close>: \<^verbatim>\<open>client.Do\<close>, indexed by the attempt number so that the endpoint may answer
    differently each time. It yields Go's pair \<^verbatim>\<open>(resp, err)\<close>: the response pointer
    (\<open>None\<close> for \<^verbatim>\<open>nil\<close>) and the error (\<open>None\<close> for \<^verbatim>\<open>nil\<close>);
  \<^item> \<open>Unmarshal\<close>: \<^verbatim>\<open>json.Unmarshal(body, &error)\<close> into a fresh \<^verbatim>\<open>AWSError{}\<close>:
    either a decode error or the decoded document;
  \<^item> \<open>ConvOverflow\<close>: the \<^verbatim>\<open>int64\<close> a conversion from \<^verbatim>\<open>float64\<close> produces when the
    value does not fit (Go leaves this to the implementation).
\<close>

record env =
  Sign :: "request \<Rightarrow> request"
  Do :: "int \<Rightarrow> request \<Rightarrow> response option \<times> string option"
  Unmarshal :: "string \<Rightarrow> string + AWSError"
  ConvOverflow :: "64 word"

text \<open>
  What a call does to the outside world, in order: the signing of the request, each
  transmission with the request handed to \<^verbatim>\<open>client.Do\<close>, and each \<^verbatim>\<open>time.Sleep\<close> with
  its argument in nanoseconds (read as a signed 64-bit number).
\<close>

datatype event =
    Signed request
  | Sent request
  | Slept int

text \<open>
  A call either returns Go's pair \<^verbatim>\<open>([]byte, error)\<close> (\<open>None\<close> for a \<^verbatim>\<open>nil\<close> error; a
  \<^verbatim>\<open>nil\<close> slice is the empty byte sequence), or it panics.
\<close>

datatype outcome =
    Return string "error option"
  | Panic

section \<open>Constants\<close>

text \<open>\<^verbatim>\<open>var MaxTries int = 5\<close>: the package-level default; the loop reads the variable.\<close>

definition MaxTries_default :: int where
  "MaxTries_default = 5"

definition exceededRetriesError :: AWSError where
  "exceededRetriesError =
     \<lparr>Type = ''GawsExceededMaxRetries'',
      Message = ''The maximum number of retries for this request was exceeded.''\<rparr>"

text \<open>\<^verbatim>\<open>time.Millisecond\<close> is 1000000 (a \<^verbatim>\<open>time.Duration\<close> counts nanoseconds in an \<^verbatim>\<open>int64\<close>).\<close>

definition Millisecond :: "64 word" where
  "Millisecond = 1000000"

section \<open>Backoff\<close>

text \<open>
  \<^verbatim>\<open>sleepDuration := time.Duration(100 * math.Pow(2.0, float64(try)))\<close>.
  The floating-point value is \<open>100 * 2 ^ try\<close>, which \<^verbatim>\<open>float64\<close> holds exactly (a 7-bit
  mantissa times a power of two); for a negative \<open>try\<close> the conversion truncates the
  fraction. The conversion to \<^verbatim>\<open>int64\<close> is exact below \<open>2 ^ 63\<close> and is
  \<open>ConvOverflow\<close> from there on.
\<close>

definition sleepDuration :: "64 word \<Rightarrow> int \<Rightarrow> 64 word" where
  "sleepDuration ovf try =
     (if try < 0 then word_of_int (100 div 2 ^ nat (- try))
      else if (100::int) * 2 ^ nat try < 2 ^ 63 then word_of_int (100 * 2 ^ nat try)
      else ovf)"

text \<open>
  \<^verbatim>\<open>time.Sleep(sleepDuration * time.Millisecond)\<close>: the product is taken in \<^verbatim>\<open>int64\<close>
  and wraps around. \<open>sleepArg\<close> is the argument \<^verbatim>\<open>time.Sleep\<close> receives, in nanoseconds.
\<close>

definition sleepArg :: "64 word \<Rightarrow> int \<Rightarrow> int" where
  "sleepArg ovf try = sint (sleepDuration ovf try * Millisecond)"

section \<open>SendAWSRequest\<close>

text \<open>
  The body of the \<^verbatim>\<open>for try := 1; try < MaxTries; try++\<close> loop, as a recursive function
  over the loop variable. The arguments are the environment, the value of \<^verbatim>\<open>MaxTries\<close>,
  the (signed) request, \<^verbatim>\<open>try\<close>, \<^verbatim>\<open>lastBody\<close> and the events so far.

  \<^verbatim>\<open>defer resp.Body.Close()\<close> stands before the check of \<^verbatim>\<open>err\<close>: the deferred
  method value is evaluated when the statement runs, so a \<^verbatim>\<open>nil\<close> response is
  dereferenced there and the call panics. The deferred calls themselves only close
  bodies when the function leaves and do not change what it returns.
\<close>

function retryLoop ::
  "env \<Rightarrow> int \<Rightarrow> request \<Rightarrow> int \<Rightarrow> string \<Rightarrow> event list \<Rightarrow> outcome \<times> event list" where
  "retryLoop e maxTries req try lastBody tr =
     (if try < maxTries then
        (case Do e try req of
           (None, err) \<Rightarrow> (Panic, tr @ [Sent req])
         | (Some resp, Some err) \<Rightarrow> (Return [] (Some (TransportError err)), tr @ [Sent req])
         | (Some resp, None) \<Rightarrow>
             (case ReadAll (Body resp) of
                (body, Some err) \<Rightarrow> (Return body (Some (ReadError err)), tr @ [Sent req])
              | (body, None) \<Rightarrow>
                  if StatusCode resp < 400 then (Return body None, tr @ [Sent req])
                  else
                    (case Unmarshal e body of
                       Inl err \<Rightarrow> (Return body (Some (DecodeError err)), tr @ [Sent req])
                     | Inr error \<Rightarrow>
                         if Type error \<noteq> ''Throttling'' \<and> StatusCode resp \<le> 500
                         then (Return body (Some (ServiceError error)), tr @ [Sent req])
                         else retryLoop e maxTries req (try + 1) body
                                (tr @ [Sent req, Slept (sleepArg (ConvOverflow e) try)]))))
      else (Return lastBody (Some (ServiceError exceededRetriesError)), tr))"
  by pat_completeness auto
termination
  by (relation "measure (\<lambda>(e, maxTries, req, try, lastBody, tr). nat (maxTries - try))") auto

declare retryLoop.simps [simp del]

text \<open>
  \<^verbatim>\<open>func SendAWSRequest(req *http.Request) ([]byte, error)\<close>: sign, then run the loop from
  \<^verbatim>\<open>try = 1\<close> with \<^verbatim>\<open>lastBody\<close> \<^verbatim>\<open>nil\<close>. The global \<^verbatim>\<open>MaxTries\<close> is an argument.
\<close>

definition SendAWSRequest :: "env \<Rightarrow> int \<Rightarrow> request \<Rightarrow> outcome \<times> event list" where
  "SendAWSRequest e maxTries req =
     retryLoop e maxTries (Sign e req) 1 [] [Signed req]"

section \<open>Reading a run\<close>

text \<open>The requests that were signed, and the requests that were transmitted, in order.\<close>

fun signings :: "event list \<Rightarrow> request list" where
  "signings [] = []"
| "signings (Signed r # evs) = r # signings evs"
| "signings (Sent r # evs) = signings evs"
| "signings (Slept d # evs) = signings evs"

fun transmissions :: "event list \<Rightarrow> request list" where
  "transmissions [] = []"
| "transmissions (Signed r # evs) = transmissions evs"
| "transmissions (Sent r # evs) = r # transmissions evs"
| "transmissions (Slept d # evs) = transmissions evs"

text \<open>The arguments of the calls of \<^verbatim>\<open>time.Sleep\<close>, in order.\<close>

fun sleeps :: "event list \<Rightarrow> int list" where
  "sleeps [] = []"
| "sleeps (Signed r # evs) = sleeps evs"
| "sleeps (Sent r # evs) = sleeps evs"
| "sleeps (Slept d # evs) = d # sleeps evs"

text \<open>
  An attempt is classified retryable when the loop body reaches the backoff: the
  transport gave a response and no error, the body was read, the status is not below
  400, the body decoded, and the test \<^verbatim>\<open>error.Type != "Throttling" && resp.StatusCode <= 500\<close>
  failed.
\<close>

definition retryable :: "env \<Rightarrow> request \<Rightarrow> int \<Rightarrow> bool" where
  "retryable e req try =
     (case Do e try req of
        (None, err) \<Rightarrow> False
      | (Some resp, Some err) \<Rightarrow> False
      | (Some resp, None) \<Rightarrow>
          (case ReadAll (Body resp) of
             (body, Some err) \<Rightarrow> False
           | (body, None) \<Rightarrow>
               \<not> StatusCode resp < 400 \<and>
               (case Unmarshal e body of
                  Inl err \<Rightarrow> False
                | Inr error \<Rightarrow> \<not> (Type error \<noteq> ''Throttling'' \<and> StatusCode resp \<le> 500))))"

section \<open>Test servers\<close>

text \<open>
  The error documents and handlers of \<^verbatim>\<open>gaws_test.go\<close>, and one more server that
  answers 500. \<open>Marshal\<close> writes an error document the way \<^verbatim>\<open>json.Marshal\<close> does for
  these values (no character in them needs escaping).
\<close>

definition notFoundError :: AWSError where
  "notFoundError = \<lparr>Type = ''NotFound'', Message = ''Could not find something''\<rparr>"

definition throttlingError :: AWSError where
  "throttlingError = \<lparr>Type = ''Throttling'', Message = ''You have been throttled''\<rparr>"

definition internalFailure :: AWSError where
  "internalFailure = \<lparr>Type = ''InternalFailure'', Message = ''The request processing has failed''\<rparr>"

definition Marshal :: "AWSError \<Rightarrow> string" where
  "Marshal err = ''{\"__type\":\"'' @ Type err @ ''\",\"message\":\"'' @ Message err @ ''\"}''"

definition testHTTP200 :: response where
  "testHTTP200 = \<lparr>StatusCode = 200, Body = BodyStream ''OK'' None\<rparr>"

definition testHTTP404 :: response where
  "testHTTP404 = \<lparr>StatusCode = 404, Body = BodyStream (Marshal notFoundError) None\<rparr>"

definition testHTTP404NonJson :: response where
  "testHTTP404NonJson = \<lparr>StatusCode = 404, Body = BodyStream ''I am not JSON!'' None\<rparr>"

definition testAWSThrottle :: response where
  "testAWSThrottle = \<lparr>StatusCode = 400, Body = BodyStream (Marshal throttlingError) None\<rparr>"

definition testHTTP500 :: response where
  "testHTTP500 = \<lparr>StatusCode = 500, Body = BodyStream (Marshal internalFailure) None\<rparr>"

text \<open>
  \<^verbatim>\<open>json.Unmarshal\<close> on the bodies these servers write: the three error documents
  decode to their values, and the text that is not JSON is refused with the decoder's
  message. Other bodies do not occur with these servers.
\<close>

definition testUnmarshal :: "string \<Rightarrow> string + AWSError" where
  "testUnmarshal body =
     (if body = Marshal notFoundError then Inr notFoundError
      else if body = Marshal throttlingError then Inr throttlingError
      else if body = Marshal internalFailure then Inr internalFailure
      else Inl ''invalid character 'I' looking for beginning of value'')"

text \<open>A signer that injects the two signature headers.\<close>

definition testSign :: "request \<Rightarrow> request" where
  "testSign r =
     r\<lparr>Header := (Header r)
          (''X-Amz-Date'' \<mapsto> [''20140101T000000Z''],
           ''Authorization'' \<mapsto> [''AWS4-HMAC-SHA256 Credential=test, Signature=00''])\<rparr>"

text \<open>An endpoint that gives the same response to every attempt.\<close>

definition testServer :: "response \<Rightarrow> env" where
  "testServer resp =
     \<lparr>Sign = testSign,
      Do = (\<lambda>try req. (Some resp, None)),
      Unmarshal = testUnmarshal,
      ConvOverflow = 0x8000000000000000\<rparr>"

text \<open>
  A host that cannot be reached (\<^verbatim>\<open>TestBadRequest\<close>): \<^verbatim>\<open>client.Do\<close> returns a \<^verbatim>\<open>nil\<close>
  response and an error.
\<close>

definition testBadHost :: env where
  "testBadHost =
     \<lparr>Sign = testSign,
      Do = (\<lambda>try req. (None, Some ''unsupported protocol scheme'')),
      Unmarshal = testUnmarshal,
      ConvOverflow = 0x8000000000000000\<rparr>"

definition canonicalRequest :: request where
  "canonicalRequest =
     \<lparr>Method = ''GET'', URL = ''http://127.0.0.1:8080'', Header = Map.empty, Payload = []\<rparr>"

section \<open>One pass through the loop\<close>

text \<open>
  The recursion equation of \<open>retryLoop\<close> is unfolded once in each of the lemmas below:
  leaving the loop, the error exits of an attempt, and the step to the next attempt.
\<close>

lemma retryLoop_exit:
  "\<not> try < maxTries \<Longrightarrow>
   retryLoop e maxTries req try lastBody tr =
     (Return lastBody (Some (ServiceError exceededRetriesError)), tr)"
  by (subst retryLoop.simps) simp

text \<open>
  The two ways \<^verbatim>\<open>client.Do\<close> can report an error: with a \<^verbatim>\<open>nil\<close> response, where the
  deferred \<^verbatim>\<open>resp.Body.Close\<close> is evaluated on \<^verbatim>\<open>nil\<close>, and with a response, where the
  error is returned with an empty body.
\<close>

lemma retryLoop_nil_response:
  "t < maxTries \<Longrightarrow> Do e t req = (None, err) \<Longrightarrow>
   retryLoop e maxTries req t lastBody tr = (Panic, tr @ [Sent req])"
  by (subst retryLoop.simps) simp

lemma retryLoop_transport_error:
  "t < maxTries \<Longrightarrow> Do e t req = (Some resp, Some err) \<Longrightarrow>
   retryLoop e maxTries req t lastBody tr =
     (Return [] (Some (TransportError err)), tr @ [Sent req])"
  by (subst retryLoop.simps) simp

lemma retryableD:
  "retryable e req try \<Longrightarrow>
   \<exists>resp body error. Do e try req = (Some resp, None) \<and> ReadAll (Body resp) = (body, None) \<and>
     \<not> StatusCode resp < 400 \<and> Unmarshal e body = Inr error \<and>
     \<not> (Type error \<noteq> ''Throttling'' \<and> StatusCode resp \<le> 500)"
  unfolding retryable_def
  by (cases "Do e try req"; cases "fst (Do e try req)"; cases "snd (Do e try req)";
      cases "ReadAll (Body (the (fst (Do e try req))))";
      cases "snd (ReadAll (Body (the (fst (Do e try req)))))";
      cases "Unmarshal e (fst (ReadAll (Body (the (fst (Do e try req))))))"; simp)

lemma retryLoop_step:
  assumes "try < maxTries" and "Do e try req = (Some resp, None)"
    and "ReadAll (Body resp) = (body, None)" and "\<not> StatusCode resp < 400"
    and "Unmarshal e body = Inr error"
    and "\<not> (Type error \<noteq> ''Throttling'' \<and> StatusCode resp \<le> 500)"
  shows "retryLoop e maxTries req try lastBody tr =
           retryLoop e maxTries req (try + 1) body
             (tr @ [Sent req, Slept (sleepArg (ConvOverflow e) try)])"
  using assms by (subst retryLoop.simps) auto

lemma retryLoop_retry:
  assumes "try < maxTries" and "retryable e req try"
  shows "\<exists>body. retryLoop e maxTries req try lastBody tr =
           retryLoop e maxTries req (try + 1) body
             (tr @ [Sent req, Slept (sleepArg (ConvOverflow e) try)])"
  using retryableD [OF assms(2)] retryLoop_step [OF assms(1)] by blast


lemma signings_append: "signings (xs @ ys) = signings xs @ signings ys"
  by (induction xs rule: signings.induct) simp_all

lemma transmissions_append: "transmissions (xs @ ys) = transmissions xs @ transmissions ys"
  by (induction xs rule: transmissions.induct) simp_all

lemma sleeps_append: "sleeps (xs @ ys) = sleeps xs @ sleeps ys"
  by (induction xs rule: sleeps.induct) simp_all


lemma retryLoop_exhausts:
  "(\<forall>t. try \<le> t \<and> t < maxTries \<longrightarrow> retryable e req t) \<Longrightarrow>
   \<exists>body tr'. retryLoop e maxTries req try lastBody tr =
       (Return body (Some (ServiceError exceededRetriesError)), tr') \<and>
     length (transmissions tr') = length (transmissions tr) + nat (maxTries - try)"
proof (induction "nat (maxTries - try)" arbitrary: "try" lastBody tr)
  case 0
  then have "\<not> try < maxTries" by simp
  then show ?case using 0 by (simp add: retryLoop_exit)
next
  case (Suc k)
  then have lt: "try < maxTries" by simp
  with Suc.prems have "retryable e req try" by simp
  from retryLoop_retry [OF lt this] obtain body where
    step: "retryLoop e maxTries req try lastBody tr =
           retryLoop e maxTries req (try + 1) body
             (tr @ [Sent req, Slept (sleepArg (ConvOverflow e) try)])"
    by blast
  from Suc.hyps(2) have k: "k = nat (maxTries - (try + 1))" by simp
  have "\<forall>t. try + 1 \<le> t \<and> t < maxTries \<longrightarrow> retryable e req t"
    using Suc.prems by simp
  from Suc.hyps(1) [OF k this, of body "tr @ [Sent req, Slept (sleepArg (ConvOverflow e) try)]"]
  show ?case using step lt by (auto simp: transmissions_append)
qed

text \<open>
  What the test \<^verbatim>\<open>error.Type != "Throttling" && resp.StatusCode <= 500\<close> amounts to for a
  response that was read and decoded: the attempt is retried exactly when the kind is
  \<^verbatim>\<open>Throttling\<close> or the status is above 500.
\<close>

lemma retryable_classification:
  assumes "Do e t req = (Some resp, None)" and "ReadAll (Body resp) = (body, None)"
    and "400 \<le> StatusCode resp" and "Unmarshal e body = Inr err"
  shows "retryable e req t \<longleftrightarrow> Type err = ''Throttling'' \<or> 500 < StatusCode resp"
  using assms by (auto simp: retryable_def)

lemma retryLoop_nil_error:
  "retryLoop e maxTries req t lastBody tr = (Return b None, tr') \<Longrightarrow>
   \<exists>k resp. t \<le> k \<and> k < maxTries \<and> Do e k req = (Some resp, None) \<and>
     ReadAll (Body resp) = (b, None) \<and> StatusCode resp < 400"
proof (induction "nat (maxTries - t)" arbitrary: t lastBody tr)
  case 0
  then have "\<not> t < maxTries" by simp
  with 0 show ?case by (simp add: retryLoop_exit)
next
  case (Suc n)
  then have lt: "t < maxTries" by simp
  show ?case
  proof (cases "retryable e req t")
    case True
    from retryLoop_retry [OF lt True] obtain body where
      "retryLoop e maxTries req t lastBody tr =
         retryLoop e maxTries req (t + 1) body
           (tr @ [Sent req, Slept (sleepArg (ConvOverflow e) t)])"
      by blast
    with Suc.prems have
      "retryLoop e maxTries req (t + 1) body
         (tr @ [Sent req, Slept (sleepArg (ConvOverflow e) t)]) = (Return b None, tr')"
      by simp
    moreover from Suc.hyps(2) have "n = nat (maxTries - (t + 1))" by simp
    ultimately obtain k resp where
      "t + 1 \<le> k" "k < maxTries" "Do e k req = (Some resp, None)"
      "ReadAll (Body resp) = (b, None)" "StatusCode resp < 400"
      using Suc.hyps(1) by blast
    then show ?thesis by (intro exI [of _ k] exI [of _ resp]) simp
  next
    case False
    have "Do e t req = (Some resp, None) \<and> ReadAll (Body resp) = (b, None) \<and>
          StatusCode resp < 400" if "fst (Do e t req) = Some resp" for resp
      using Suc.prems lt False that unfolding retryable_def
      by (subst (asm) retryLoop.simps)
         (cases "Do e t req"; cases "snd (Do e t req)"; cases "ReadAll (Body resp)";
          cases "snd (ReadAll (Body resp))"; cases "Unmarshal e (fst (ReadAll (Body resp)))";
          auto split: if_splits)
    moreover have "\<exists>resp. fst (Do e t req) = Some resp"
      using Suc.prems lt
      by (subst (asm) retryLoop.simps) (cases "Do e t req"; cases "fst (Do e t req)"; auto)
    ultimately show ?thesis using lt by (metis order_refl)
  qed
qed

section \<open>Facts about the test servers\<close>

lemma Type_fixtures:
  "Type notFoundError = ''NotFound''" "Type throttlingError = ''Throttling''"
  "Type internalFailure = ''InternalFailure''"
  "Type exceededRetriesError = ''GawsExceededMaxRetries''"
  by (simp_all add: notFoundError_def throttlingError_def internalFailure_def
      exceededRetriesError_def)

lemma testUnmarshal_fixtures:
  "testUnmarshal (Marshal notFoundError) = Inr notFoundError"
  "testUnmarshal (Marshal throttlingError) = Inr throttlingError"
  "testUnmarshal (Marshal internalFailure) = Inr internalFailure"
  "testUnmarshal ''I am not JSON!'' = Inl ''invalid character 'I' looking for beginning of value''"
  by (simp_all add: testUnmarshal_def Marshal_def notFoundError_def throttlingError_def
      internalFailure_def)

lemma testServer_sel:
  "Sign (testServer resp) = testSign"
  "Do (testServer resp) t r = (Some resp, None)"
  "Unmarshal (testServer resp) = testUnmarshal"
  "ConvOverflow (testServer resp) = 0x8000000000000000"
  by (simp_all add: testServer_def)

lemma retryable_testAWSThrottle:
  "retryable (testServer testAWSThrottle) r t"
  by (simp add: retryable_def testServer_sel testAWSThrottle_def testUnmarshal_fixtures
      Type_fixtures)

section \<open>Arithmetic of the backoff\<close>

lemma sleepArg_small:
  "sleepArg ovf 1 = 200000000" "sleepArg ovf 2 = 400000000"
  "sleepArg ovf 3 = 800000000" "sleepArg ovf 4 = 1600000000"
  by (simp_all add: sleepArg_def sleepDuration_def Millisecond_def)

lemma sint_word64:
  "0 \<le> x \<Longrightarrow> x < 2 ^ 63 \<Longrightarrow> sint (word_of_int x :: 64 word) = x"
  by (simp add: sint_sbintrunc' signed_take_bit_int_eq_self)

lemma sleepArg_exact:
  assumes "0 \<le> k" and "k \<le> 36"
  shows "sleepArg ovf k = 100 * 1000000 * 2 ^ nat k"
proof -
  have le: "(2::int) ^ nat k \<le> 2 ^ 36"
    using assms by (intro power_increasing) auto
  have small: "(100::int) * 2 ^ nat k < 2 ^ 63" using le by simp
  have "sleepDuration ovf k * Millisecond = word_of_int (100 * 2 ^ nat k * 1000000)"
    using assms(1) small by (simp add: sleepDuration_def Millisecond_def)
  then have "sleepArg ovf k = sint (word_of_int (100 * 2 ^ nat k * 1000000) :: 64 word)"
    by (simp only: sleepArg_def)
  also have "\<dots> = 100 * 2 ^ nat k * 1000000"
  proof (rule sint_word64)
    show "(0::int) \<le> 100 * 2 ^ nat k * 1000000" by simp
    show "(100::int) * 2 ^ nat k * 1000000 < 2 ^ 63" using le by simp
  qed
  finally show ?thesis by simp
qed

section \<open>Properties of SendAWSRequest\<close>

text \<open>
  C1 (retry classification). The claim: a decoded error response is retried exactly when
  its kind is \<^verbatim>\<open>Throttling\<close> or its status is 500 or greater, so that a non-throttling
  error with status exactly 500 is retried. The doc comment of \<^verbatim>\<open>SendAWSRequest\<close> says the
  same (``It will retry 500s''), and the comment above the test speaks of errors ``below
  500''. The test itself is \<^verbatim>\<open>resp.StatusCode <= 500\<close>: against a server that answers 500
  with a non-throttling error document the call returns that error after one
  transmission and no sleep.
\<close>

theorem status_500_returned_not_retried:
  "SendAWSRequest (testServer testHTTP500) MaxTries_default canonicalRequest =
     (Return (Marshal internalFailure) (Some (ServiceError internalFailure)),
      [Signed canonicalRequest, Sent (testSign canonicalRequest)])"
  by (simp add: SendAWSRequest_def MaxTries_default_def retryLoop.simps testServer_sel
      testHTTP500_def testUnmarshal_fixtures Type_fixtures)

text \<open>
  C2 (attempts until exhaustion). The claim: when every attempt is retryable the
  function makes exactly \<^verbatim>\<open>MaxTries\<close> attempts and then returns the exhaustion error. The
  loop is \<^verbatim>\<open>for try := 1; try < MaxTries; try++\<close>: against the throttling server with the
  default \<^verbatim>\<open>MaxTries = 5\<close> it transmits four times (sleeping after each of them) and
  then returns the exhaustion error, one attempt fewer than \<^verbatim>\<open>MaxTries\<close>.
\<close>

theorem throttled_default_makes_four_attempts:
  "SendAWSRequest (testServer testAWSThrottle) MaxTries_default canonicalRequest =
     (Return (Marshal throttlingError) (Some (ServiceError exceededRetriesError)),
      [Signed canonicalRequest,
       Sent (testSign canonicalRequest), Slept 200000000,
       Sent (testSign canonicalRequest), Slept 400000000,
       Sent (testSign canonicalRequest), Slept 800000000,
       Sent (testSign canonicalRequest), Slept 1600000000]) \<and>
   int (length (transmissions (snd (SendAWSRequest (testServer testAWSThrottle)
          MaxTries_default canonicalRequest)))) = MaxTries_default - 1"
  by (simp add: SendAWSRequest_def MaxTries_default_def retryLoop.simps testServer_sel
      testAWSThrottle_def testUnmarshal_fixtures Type_fixtures sleepArg_small)

text \<open>
  C3 (exhaustion error is the sentinel). Whenever every attempt of a call is classified
  retryable, the error returned is the fixed value \<open>exceededRetriesError\<close>, whose kind is
  \<^verbatim>\<open>GawsExceededMaxRetries\<close> and not \<^verbatim>\<open>Throttling\<close>, whatever the endpoint answered.
\<close>

theorem exhaustion_error_is_sentinel:
  assumes "list_all (retryable e (Sign e req)) [1..maxTries - 1]"
  shows "\<exists>body tr. SendAWSRequest e maxTries req =
            (Return body (Some (ServiceError exceededRetriesError)), tr) \<and>
          Type exceededRetriesError = ''GawsExceededMaxRetries'' \<and>
          Type exceededRetriesError \<noteq> ''Throttling''"
proof -
  from assms have "\<forall>t. 1 \<le> t \<and> t < maxTries \<longrightarrow> retryable e (Sign e req) t"
    by (simp add: list_all_iff)
  from retryLoop_exhausts [OF this, of "[]" "[Signed req]"]
  show ?thesis by (auto simp: SendAWSRequest_def exceededRetriesError_def)
qed

theorem exhaustion_error_is_sentinel_witness:
  "list_all (retryable (testServer testAWSThrottle)
      (Sign (testServer testAWSThrottle) canonicalRequest)) [1..MaxTries_default - 1] \<and>
   (\<exists>body tr. SendAWSRequest (testServer testAWSThrottle) MaxTries_default canonicalRequest =
      (Return body (Some (ServiceError exceededRetriesError)), tr) \<and>
      Type exceededRetriesError = ''GawsExceededMaxRetries'' \<and>
      Type exceededRetriesError \<noteq> ''Throttling'')"
proof -
  have h: "list_all (retryable (testServer testAWSThrottle)
      (Sign (testServer testAWSThrottle) canonicalRequest)) [1..MaxTries_default - 1]"
    by (simp add: list_all_iff retryable_testAWSThrottle)
  from h exhaustion_error_is_sentinel [OF h] show ?thesis by blast
qed

text \<open>
  C4 (backoff), as amended. For every retry \<open>k\<close> from 1 to 36 the argument of
  \<^verbatim>\<open>time.Sleep\<close> is 100 ms times \<open>2 ^ k\<close> (in nanoseconds), each wait up to the 36th is
  strictly smaller than the next one, the first wait exceeds 100 ms, and this is the
  duration the loop sleeps for before attempt \<open>k + 1\<close>. From \<open>k = 37\<close> on the product
  with \<^verbatim>\<open>time.Millisecond\<close> no longer fits the 64-bit \<^verbatim>\<open>time.Duration\<close>.
\<close>

theorem backoff_wait:
  assumes "1 \<le> k" and "k \<le> 36"
  shows "sleepArg (ConvOverflow e) k = 100 * 1000000 * 2 ^ nat k \<and>
         (k < 36 \<longrightarrow> sleepArg (ConvOverflow e) k < sleepArg (ConvOverflow e) (k + 1)) \<and>
         100 * 1000000 < sleepArg (ConvOverflow e) 1 \<and>
         (k < maxTries \<and> retryable e req k \<longrightarrow>
            (\<exists>body. retryLoop e maxTries req k lastBody tr =
               retryLoop e maxTries req (k + 1) body
                 (tr @ [Sent req, Slept (100 * 1000000 * 2 ^ nat k)])))"
proof -
  have a: "sleepArg (ConvOverflow e) k = 100 * 1000000 * 2 ^ nat k"
    using assms by (simp add: sleepArg_exact)
  have b: "sleepArg (ConvOverflow e) k < sleepArg (ConvOverflow e) (k + 1)" if "k < 36"
  proof -
    have "nat (k + 1) = Suc (nat k)" using assms by simp
    then show ?thesis using that assms by (simp add: sleepArg_exact)
  qed
  have c: "100 * 1000000 < sleepArg (ConvOverflow e) 1"
    by (simp add: sleepArg_small)
  have d: "\<exists>body. retryLoop e maxTries req k lastBody tr =
               retryLoop e maxTries req (k + 1) body
                 (tr @ [Sent req, Slept (100 * 1000000 * 2 ^ nat k)])"
    if "k < maxTries" "retryable e req k"
    using retryLoop_retry [OF that] a by simp
  from a b c d show ?thesis by blast
qed

theorem backoff_wait_witness:
  "sleepArg (ConvOverflow (testServer testAWSThrottle)) 3 = 800000000 \<and>
   sleepArg (ConvOverflow (testServer testAWSThrottle)) 3
     < sleepArg (ConvOverflow (testServer testAWSThrottle)) 4 \<and>
   (\<exists>body. retryLoop (testServer testAWSThrottle) 5 (testSign canonicalRequest) 3 [] [] =
      retryLoop (testServer testAWSThrottle) 5 (testSign canonicalRequest) 4 body
        [Sent (testSign canonicalRequest), Slept 800000000])"
proof -
  have r: "retryable (testServer testAWSThrottle) (testSign canonicalRequest) 3"
    by (simp add: retryable_def testServer_sel testAWSThrottle_def testUnmarshal_fixtures
        Type_fixtures)
  show ?thesis
    using backoff_wait [of 3 "testServer testAWSThrottle" 5 "testSign canonicalRequest" "[]" "[]"] r
    by simp
qed

text \<open>
  C4 as stated (for every retry \<open>k\<close>) fails at \<open>k = 37\<close>: in a call with
  \<^verbatim>\<open>MaxTries = 38\<close> against the throttling server, the 36th and 37th sleeps are for
  6871947673600000000 ns and then for a negative duration, which is neither
  100 ms times \<open>2 ^ 37\<close> nor greater than the wait before it.
\<close>

theorem backoff_overflow_counterexample:
  "drop 35 (sleeps (snd (SendAWSRequest (testServer testAWSThrottle) 38 canonicalRequest)))
     = [6871947673600000000, - 4702848726509551616] \<and>
   sleepArg (ConvOverflow (testServer testAWSThrottle)) 37 \<noteq> 100 * 1000000 * 2 ^ 37 \<and>
   \<not> sleepArg (ConvOverflow (testServer testAWSThrottle)) 36
       < sleepArg (ConvOverflow (testServer testAWSThrottle)) 37"
  by (simp add: SendAWSRequest_def retryLoop.simps testServer_sel testAWSThrottle_def
      testUnmarshal_fixtures Type_fixtures sleepArg_def sleepDuration_def Millisecond_def)

text \<open>
  C5 (success path). If the first attempt yields a response with status below 400
  (whose body is read), the function returns exactly that body with a \<^verbatim>\<open>nil\<close> error after
  one transmission; and whenever the function returns a \<^verbatim>\<open>nil\<close> error, the body it
  returns is that of a response with status below 400: there is no other success exit.
\<close>

theorem success_path:
  "(1 < maxTries \<and> Do e 1 (Sign e req) = (Some resp, None) \<and>
    ReadAll (Body resp) = (body, None) \<and> StatusCode resp < 400 \<longrightarrow>
      SendAWSRequest e maxTries req = (Return body None, [Signed req, Sent (Sign e req)])) \<and>
   (SendAWSRequest e maxTries req = (Return b None, tr) \<longrightarrow>
      (\<exists>k resp'. 1 \<le> k \<and> k < maxTries \<and> Do e k (Sign e req) = (Some resp', None) \<and>
         ReadAll (Body resp') = (b, None) \<and> StatusCode resp' < 400))"
proof (intro conjI impI)
  assume "1 < maxTries \<and> Do e 1 (Sign e req) = (Some resp, None) \<and>
    ReadAll (Body resp) = (body, None) \<and> StatusCode resp < 400"
  then show "SendAWSRequest e maxTries req = (Return body None, [Signed req, Sent (Sign e req)])"
    unfolding SendAWSRequest_def by (subst retryLoop.simps) simp
next
  assume "SendAWSRequest e maxTries req = (Return b None, tr)"
  then have "retryLoop e maxTries (Sign e req) 1 [] [Signed req] = (Return b None, tr)"
    by (simp add: SendAWSRequest_def)
  from retryLoop_nil_error [OF this]
  show "\<exists>k resp'. 1 \<le> k \<and> k < maxTries \<and> Do e k (Sign e req) = (Some resp', None) \<and>
         ReadAll (Body resp') = (b, None) \<and> StatusCode resp' < 400" .
qed

theorem success_path_witness:
  "SendAWSRequest (testServer testHTTP200) MaxTries_default canonicalRequest =
     (Return ''OK'' None, [Signed canonicalRequest, Sent (testSign canonicalRequest)]) \<and>
   (\<exists>k resp'. 1 \<le> k \<and> k < MaxTries_default \<and>
      Do (testServer testHTTP200) k (Sign (testServer testHTTP200) canonicalRequest)
        = (Some resp', None) \<and>
      ReadAll (Body resp') = (''OK'', None) \<and> StatusCode resp' < 400)"
proof -
  have h: "1 < MaxTries_default \<and>
      Do (testServer testHTTP200) 1 (Sign (testServer testHTTP200) canonicalRequest)
        = (Some testHTTP200, None) \<and>
      ReadAll (Body testHTTP200) = (''OK'', None) \<and> StatusCode testHTTP200 < 400"
    by (simp add: MaxTries_default_def testServer_sel testHTTP200_def)
  from success_path [of MaxTries_default "testServer testHTTP200" canonicalRequest
      testHTTP200 "''OK''" "''OK''" "[Signed canonicalRequest, Sent (testSign canonicalRequest)]"] h
  show ?thesis by (simp add: testServer_sel)
qed

text \<open>
  C6 (client error, not retried). A response with status in [400, 500) whose body
  decodes to an error document of a kind other than \<^verbatim>\<open>Throttling\<close> ends the loop at once,
  at whatever attempt \<open>t\<close> it arrives: the decoded document is returned as the error, kind
  and message unchanged, with no further transmission and no sleep. On the first
  attempt the whole call is one signing and one transmission.
\<close>

theorem client_error_returned:
  assumes "t < maxTries" and "Do e t sreq = (Some resp, None)"
    and "ReadAll (Body resp) = (body, None)"
    and "400 \<le> StatusCode resp" and "StatusCode resp < 500"
    and "Unmarshal e body = Inr err" and "Type err \<noteq> ''Throttling''"
  shows "retryLoop e maxTries sreq t lastBody tr =
           (Return body (Some (ServiceError err)), tr @ [Sent sreq]) \<and>
         (t = 1 \<and> sreq = Sign e req \<longrightarrow>
            SendAWSRequest e maxTries req =
              (Return body (Some (ServiceError err)), [Signed req, Sent (Sign e req)]))"
proof -
  have "retryLoop e maxTries sreq t lastBody tr =
           (Return body (Some (ServiceError err)), tr @ [Sent sreq])" for lastBody tr
    using assms by (subst retryLoop.simps) simp
  then show ?thesis by (auto simp: SendAWSRequest_def)
qed

theorem client_error_returned_witness:
  "SendAWSRequest (testServer testHTTP404) MaxTries_default canonicalRequest =
     (Return (Marshal notFoundError)
        (Some (ServiceError \<lparr>Type = ''NotFound'', Message = ''Could not find something''\<rparr>)),
      [Signed canonicalRequest, Sent (testSign canonicalRequest)])"
  using client_error_returned [of 1 MaxTries_default "testServer testHTTP404"
      "testSign canonicalRequest" testHTTP404 "Marshal notFoundError" notFoundError
      "[]" "[]" canonicalRequest]
  by (simp add: MaxTries_default_def testServer_sel testHTTP404_def testUnmarshal_fixtures
      Type_fixtures) (simp add: notFoundError_def)

text \<open>
  C7 (malformed error body). A response with status 400 or more whose body does not
  decode ends the loop at once with the decoder's error, at whatever attempt \<open>t\<close> it
  arrives; it is never retried. On the first attempt the whole call is one signing and
  one transmission.
\<close>

theorem malformed_error_body:
  assumes "t < maxTries" and "Do e t sreq = (Some resp, None)"
    and "ReadAll (Body resp) = (body, None)"
    and "400 \<le> StatusCode resp"
    and "Unmarshal e body = Inl msg"
  shows "retryLoop e maxTries sreq t lastBody tr =
           (Return body (Some (DecodeError msg)), tr @ [Sent sreq]) \<and>
         (t = 1 \<and> sreq = Sign e req \<longrightarrow>
            SendAWSRequest e maxTries req =
              (Return body (Some (DecodeError msg)), [Signed req, Sent (Sign e req)]))"
proof -
  have "retryLoop e maxTries sreq t lastBody tr =
           (Return body (Some (DecodeError msg)), tr @ [Sent sreq])" for lastBody tr
    using assms by (subst retryLoop.simps) simp
  then show ?thesis by (auto simp: SendAWSRequest_def)
qed

theorem malformed_error_body_witness:
  "SendAWSRequest (testServer testHTTP404NonJson) MaxTries_default canonicalRequest =
     (Return ''I am not JSON!''
        (Some (DecodeError ''invalid character 'I' looking for beginning of value'')),
      [Signed canonicalRequest, Sent (testSign canonicalRequest)])"
  using malformed_error_body [of 1 MaxTries_default "testServer testHTTP404NonJson"
      "testSign canonicalRequest" testHTTP404NonJson "''I am not JSON!''"
      "''invalid character 'I' looking for beginning of value''"
      "[]" "[]" canonicalRequest]
  by (simp add: MaxTries_default_def testServer_sel testHTTP404NonJson_def
      testUnmarshal_fixtures)

text \<open>
  C8 (transport failure). The claim: when the transport fails before a response is
  obtained, the transport error is returned at once. \<^verbatim>\<open>client.Do\<close> then returns a \<^verbatim>\<open>nil\<close>
  response with the error, and \<^verbatim>\<open>defer resp.Body.Close()\<close> runs before \<^verbatim>\<open>err\<close> is
  looked at: against the unreachable host of \<^verbatim>\<open>TestBadRequest\<close> the call panics after the
  first transmission instead of returning the error.
\<close>

theorem transport_failure_panics:
  "SendAWSRequest testBadHost MaxTries_default canonicalRequest =
     (Panic, [Signed canonicalRequest, Sent (testSign canonicalRequest)])"
  by (simp add: SendAWSRequest_def MaxTries_default_def retryLoop.simps testBadHost_def)


text \<open>
  C10 (\<^verbatim>\<open>MaxTries\<close> of 1 or less). The loop body never runs: the request is signed, nothing
  is transmitted, and the function returns the exhaustion error of kind
  \<^verbatim>\<open>GawsExceededMaxRetries\<close> with an empty body.
\<close>

theorem max_tries_at_most_one:
  "maxTries \<le> 1 \<Longrightarrow>
   SendAWSRequest e maxTries req =
     (Return [] (Some (ServiceError exceededRetriesError)), [Signed req]) \<and>
   Type exceededRetriesError = ''GawsExceededMaxRetries''"
  by (simp add: SendAWSRequest_def retryLoop_exit exceededRetriesError_def)

theorem max_tries_at_most_one_witness:
  "(1::int) \<le> 1 \<and>
   SendAWSRequest (testServer testHTTP200) 1 canonicalRequest =
     (Return [] (Some (ServiceError exceededRetriesError)), [Signed canonicalRequest]) \<and>
   transmissions (snd (SendAWSRequest (testServer testHTTP200) 1 canonicalRequest)) = []"
  using max_tries_at_most_one [of 1 "testServer testHTTP200" canonicalRequest] by simp

end
